theory Spec2Isabelle
  imports Complex_Main
begin

section \<open>Scheduled Runner (automated_weather_pipeline.py)\<close>

subsection \<open>Configuration, pipeline outcomes, log\<close>

text \<open>
  \<^verbatim>\<open>AutomationConfig\<close> holds the two constants the retry loop reads. In the source
  they are \<open>3\<close> and \<open>5\<close>; the loop is modelled for any values. \<open>MAX_RETRIES\<close> is a
  Python int (\<open>range(1, MAX_RETRIES + 1)\<close> is empty when it is below one).
  \<open>RETRY_DELAY_MINUTES\<close> is a duration handed to \<^verbatim>\<open>time.sleep\<close>, a natural number of
  minutes.
\<close>

record AutomationConfig =
  MAX_RETRIES :: int
  RETRY_DELAY_MINUTES :: nat

definition default_config :: AutomationConfig where
  "default_config = \<lparr>MAX_RETRIES = 3, RETRY_DELAY_MINUTES = 5\<rparr>"

text \<open>
  What \<^verbatim>\<open>except Exception as e\<close> sees of a raised object: whether it is an instance of
  \<^verbatim>\<open>Exception\<close> (with \<^verbatim>\<open>str(e)\<close>), or a \<^verbatim>\<open>BaseException\<close> outside that class
  (\<^verbatim>\<open>KeyboardInterrupt\<close>, \<^verbatim>\<open>SystemExit\<close>, \<^verbatim>\<open>GeneratorExit\<close>), which the handler does
  not catch.
\<close>

datatype py_exception =
    PyException string
  | NonException string

text \<open>
  Modelled from the spec: the Pipeline Result type. \<^verbatim>\<open>weather_pipeline.WeatherPipeline\<close> is
  imported, not part of the sources; its result is "a record containing an elapsed-time
  measurement and two named collections of rows". The elapsed time (a float) and the rows
  are kept abstract, as the runner only formats the first and counts the second.
\<close>

record 'row pipeline_data =
  current :: "'row list"
  forecast :: "'row list"

record ('t, 'row) pipeline_result =
  execution_time :: 't
  data :: "'row pipeline_data"

text \<open>
  One invocation \<^verbatim>\<open>WeatherPipeline().run()\<close> either raises or returns. A returned value is
  tested by \<^verbatim>\<open>if result:\<close>; \<open>Returns None\<close> stands for every falsy value, and
  \<open>Returns (Some r)\<close> for a result record (a non-empty dict, hence truthy).
\<close>

datatype ('t, 'row) outcome =
    Raises py_exception
  | Returns "('t, 'row) pipeline_result option"

datatype level = INFO | ERROR

text \<open>One constructor per \<^verbatim>\<open>logger\<close> call of the loop, carrying the interpolated values.\<close>

datatype 't message =
    Rule
  | Starting int int
  | Completed
  | ExecutionTime 't
  | CurrentRecords nat
  | ForecastRecords nat
  | NoResult
  | FailedOnAttempt int string
  | Retrying nat
  | FailedAfter int

text \<open>
  The observable effects of a run: the log lines in order, the arguments of every
  \<^verbatim>\<open>time.sleep\<close> in seconds, and the attempt numbers at which the pipeline was invoked.
\<close>

record 't run_state =
  logged :: "(level \<times> 't message) list"
  slept :: "nat list"
  invocations :: "int list"

definition init_state :: "'t run_state" where
  "init_state = \<lparr>logged = [], slept = [], invocations = []\<rparr>"

definition logger_info :: "'t message \<Rightarrow> 't run_state \<Rightarrow> 't run_state" where
  "logger_info m s = s\<lparr>logged := logged s @ [(INFO, m)]\<rparr>"

definition logger_error :: "'t message \<Rightarrow> 't run_state \<Rightarrow> 't run_state" where
  "logger_error m s = s\<lparr>logged := logged s @ [(ERROR, m)]\<rparr>"

definition time_sleep :: "nat \<Rightarrow> 't run_state \<Rightarrow> 't run_state" where
  "time_sleep secs s = s\<lparr>slept := slept s @ [secs]\<rparr>"

definition invoke :: "int \<Rightarrow> 't run_state \<Rightarrow> 't run_state" where
  "invoke attempt s = s\<lparr>invocations := invocations s @ [attempt]\<rparr>"

subsection \<open>The retry loop\<close>

text \<open>
  The body of \<^verbatim>\<open>for attempt in range(1, MAX_RETRIES + 1)\<close>, by recursion on the attempt
  numbers still to run. The pipeline is a function from the attempt number to the outcome
  of that invocation. The result is \<open>Inr b\<close> when the function returns \<open>b\<close>, and \<open>Inl e\<close>
  when \<open>e\<close> leaves the function uncaught.
\<close>

fun retry_loop ::
  "AutomationConfig \<Rightarrow> (int \<Rightarrow> ('t, 'row) outcome) \<Rightarrow> int list \<Rightarrow> 't run_state
    \<Rightarrow> (py_exception + bool) \<times> 't run_state" where
  "retry_loop cfg pipeline [] s = (Inr False, s)"
| "retry_loop cfg pipeline (attempt # rest) s =
    (let s1 = logger_info Rule s;
         s2 = logger_info (Starting attempt (MAX_RETRIES cfg)) s1;
         s3 = logger_info Rule s2;
         s4 = invoke attempt s3
     in case pipeline attempt of
          Returns (Some result) \<Rightarrow>
            (Inr True,
             logger_info (ForecastRecords (length (forecast (data result))))
               (logger_info (CurrentRecords (length (current (data result))))
                 (logger_info (ExecutionTime (execution_time result))
                   (logger_info Completed s4))))
        | Returns None \<Rightarrow> retry_loop cfg pipeline rest (logger_error NoResult s4)
        | Raises (PyException e) \<Rightarrow>
            (let s5 = logger_error (FailedOnAttempt attempt e) s4
             in if attempt < MAX_RETRIES cfg
                then retry_loop cfg pipeline rest
                       (time_sleep (RETRY_DELAY_MINUTES cfg * 60)
                         (logger_info (Retrying (RETRY_DELAY_MINUTES cfg)) s5))
                else (Inr False, logger_error (FailedAfter (MAX_RETRIES cfg)) s5))
        | Raises (NonException e) \<Rightarrow> (Inl (NonException e), s4))"

definition run_pipeline_with_retry ::
  "AutomationConfig \<Rightarrow> (int \<Rightarrow> ('t, 'row) outcome) \<Rightarrow> (py_exception + bool) \<times> 't run_state" where
  "run_pipeline_with_retry cfg pipeline = retry_loop cfg pipeline [1..MAX_RETRIES cfg] init_state"

text \<open>The outcomes the retry policy treats as a failed attempt.\<close>

definition fails :: "('t, 'row) outcome \<Rightarrow> bool" where
  "fails out =
     (case out of
        Raises (PyException e) \<Rightarrow> True
      | Raises (NonException e) \<Rightarrow> False
      | Returns None \<Rightarrow> True
      | Returns (Some r) \<Rightarrow> False)"

section \<open>Dashboard Reader (weather_dashboard.py)\<close>

subsection \<open>Rows of the two relations\<close>

text \<open>
  The columns of \<^verbatim>\<open>forecast_data\<close> and \<^verbatim>\<open>alerts_data\<close>. Floats are read as reals, a
  calendar date as its day number, a timestamp as seconds. The cells the script guards
  against missing values (\<^verbatim>\<open>na=False\<close>, \<^verbatim>\<open>isin\<close>, \<^verbatim>\<open>if alert['instruction']\<close>, a
  \<^verbatim>\<open>NaT\<close> timestamp) are options.
\<close>

record forecast_row =
  city :: string
  date :: int
  temp_min :: real
  temp_max :: real
  temp_avg :: real
  humidity :: real
  wind_speed :: real
  precipitation_prob :: real
  conditions :: string

record alert_row =
  event :: "string option"
  severity :: "string option"
  urgency :: string
  area_desc :: string
  expires :: string
  headline :: string
  instruction :: "string option"
  extracted_at :: "real option"

subsection \<open>The analytical store and its engine\<close>

text \<open>
  The database engine is a library, not part of the sources. It is a parameter of the
  model: for each of the two SQL texts the script executes, what running it through a
  connection returns (rows or an error) and the store it leaves. \<open>'st\<close> is the persisted
  state of the store. Opening the database is folded into the first query through the
  connection.
\<close>

record connection =
  database :: string
  read_only :: bool

datatype db_error =
    CatalogException string
  | BinderException string
  | IOException string

record 'st engine =
  select_forecast :: "connection \<Rightarrow> 'st \<Rightarrow> (db_error + forecast_row list) \<times> 'st"
  select_alerts :: "connection \<Rightarrow> 'st \<Rightarrow> (db_error + alert_row list) \<times> 'st"

text \<open>The engine leaves the store as it is whenever the connection is read-only.\<close>

definition honours_read_only :: "'st engine \<Rightarrow> bool" where
  "honours_read_only eng =
     (\<forall>con st. read_only con \<longrightarrow>
        snd (select_forecast eng con st) = st \<and> snd (select_alerts eng con st) = st)"

definition get_database_connection :: connection where
  "get_database_connection = \<lparr>database = ''weather_project.duckdb'', read_only = True\<rparr>"

text \<open>
  \<^verbatim>\<open>load_forecast_data\<close> lets an error of the query pass to its caller.
  \<^verbatim>\<open>load_alerts_data\<close> wraps connection and query in \<^verbatim>\<open>try\<close> with a bare \<^verbatim>\<open>except:\<close>, which
  returns \<^verbatim>\<open>pd.DataFrame()\<close>, the frame with no rows.
\<close>

definition load_forecast_data :: "'st engine \<Rightarrow> 'st \<Rightarrow> (db_error + forecast_row list) \<times> 'st" where
  "load_forecast_data eng st =
     (let con = get_database_connection
      in case select_forecast eng con st of
           (Inl e, st') \<Rightarrow> (Inl e, st')
         | (Inr df, st') \<Rightarrow> (Inr df, st'))"

definition load_alerts_data :: "'st engine \<Rightarrow> 'st \<Rightarrow> (db_error + alert_row list) \<times> 'st" where
  "load_alerts_data eng st =
     (let con = get_database_connection
      in case select_alerts eng con st of
           (Inl e, st') \<Rightarrow> (Inr [], st')
         | (Inr df, st') \<Rightarrow> (Inr df, st'))"

subsection \<open>Text matching\<close>

definition ascii_lower :: "char \<Rightarrow> char" where
  "ascii_lower c =
     (let n = (of_char c :: nat) in if 65 \<le> n \<and> n \<le> 90 then char_of (n + 32) else c)"

fun match_here :: "string \<Rightarrow> string \<Rightarrow> bool" where
  "match_here [] s = True"
| "match_here (p # ps) [] = False"
| "match_here (p # ps) (c # cs) = (p = c \<and> match_here ps cs)"

fun search :: "string \<Rightarrow> string \<Rightarrow> bool" where
  "search pat [] = match_here pat []"
| "search pat (c # cs) = (match_here pat (c # cs) \<or> search pat cs)"

text \<open>
  \<^verbatim>\<open>Series.str.contains(pat, case=False, na=False)\<close> on one cell, for a pattern that is an
  alternation of literal texts (\<^verbatim>\<open>'Tornado|Severe Thunderstorm'\<close> is the list of its two
  alternatives): a case-insensitive search anywhere in the cell, false on a missing cell.
\<close>

definition str_contains :: "string list \<Rightarrow> string option \<Rightarrow> bool" where
  "str_contains alternatives cell =
     (case cell of
        None \<Rightarrow> False
      | Some s \<Rightarrow> list_ex (\<lambda>pat. search (map ascii_lower pat) (map ascii_lower s)) alternatives)"

definition isin :: "string list \<Rightarrow> string option \<Rightarrow> bool" where
  "isin values cell = (case cell of None \<Rightarrow> False | Some s \<Rightarrow> s \<in> set values)"

text \<open>Python's \<^verbatim>\<open>str()\<close> of a cell inside an f-string.\<close>

definition str_of :: "string option \<Rightarrow> string" where
  "str_of cell = (case cell of None \<Rightarrow> ''None'' | Some s \<Rightarrow> s)"

subsection \<open>Widgets\<close>

text \<open>
  What a render pass puts on the page, one constructor per call of the script that the
  model keeps. The emoji that starts an expander's title is the \<open>icon\<close>.
\<close>

datatype icon = WarningSign | HighVoltage | RotatingLight

text \<open>
  What the script's \<^verbatim>\<open>except Exception as e\<close> can catch in the model: an error of a
  query, or the exception the sidebar section raises on a forecast frame with no rows.
\<close>

datatype page_error = DatabaseError db_error | EmptyFrameError

datatype widget =
    TornadoAlert
  | ThunderstormWarning
  | OtherSevere nat
  | AdvisoryInfo nat
  | NoActiveAlerts
  | Expander icon string bool "string list"
  | DownloadButton "forecast_row list"
  | LoadError page_error
  | HintDatabase
  | HintRunPipeline

definition alert_details :: "alert_row \<Rightarrow> string list" where
  "alert_details alert =
     [''**Severity:** '' @ str_of (severity alert),
      ''**Urgency:** '' @ urgency alert,
      ''**Expires:** '' @ expires alert,
      ''**Headline:** '' @ headline alert]"

definition what_to_do :: "alert_row \<Rightarrow> string list" where
  "what_to_do alert =
     (case instruction alert of
        None \<Rightarrow> []
      | Some instr \<Rightarrow> if instr = [] then [] else [''**What to do:** '' @ take 300 instr])"

definition expander :: "icon \<Rightarrow> bool \<Rightarrow> bool \<Rightarrow> alert_row \<Rightarrow> widget" where
  "expander ic expanded with_instruction alert =
     Expander ic (str_of (event alert) @ '' - '' @ area_desc alert) expanded
       (alert_details alert @ (if with_instruction then what_to_do alert else []))"

subsection \<open>Alert triage\<close>

text \<open>\<^verbatim>\<open>(datetime.now() - extracted_at).dt.total_seconds() < 86400\<close>; false on \<^verbatim>\<open>NaT\<close>.\<close>

definition is_recent :: "real \<Rightarrow> alert_row \<Rightarrow> bool" where
  "is_recent now alert = (case extracted_at alert of None \<Rightarrow> False | Some t \<Rightarrow> now - t < 86400)"

definition recent_alerts :: "real \<Rightarrow> alert_row list \<Rightarrow> alert_row list" where
  "recent_alerts now alerts_df = filter (is_recent now) alerts_df"

definition tornado_alerts :: "alert_row list \<Rightarrow> alert_row list" where
  "tornado_alerts recent = filter (\<lambda>a. str_contains [''Tornado''] (event a)) recent"

definition thunderstorm_alerts :: "alert_row list \<Rightarrow> alert_row list" where
  "thunderstorm_alerts recent = filter (\<lambda>a. str_contains [''Severe Thunderstorm''] (event a)) recent"

definition other_severe_alerts :: "alert_row list \<Rightarrow> alert_row list" where
  "other_severe_alerts recent =
     filter (\<lambda>a. \<not> str_contains [''Tornado'', ''Severe Thunderstorm''] (event a)
                  \<and> isin [''Extreme'', ''Severe''] (severity a)) recent"

definition moderate_alerts :: "alert_row list \<Rightarrow> alert_row list" where
  "moderate_alerts recent = filter (\<lambda>a. isin [''Moderate'', ''Minor''] (severity a)) recent"

text \<open>
  The banner section of the script (the \<^verbatim>\<open>if len(alerts_df) > 0: ... else: st.success(...)\<close>
  block), as the widgets it emits in order.
\<close>

definition alert_banner :: "real \<Rightarrow> alert_row list \<Rightarrow> widget list" where
  "alert_banner now alerts_df =
     (if length alerts_df > 0 then
        (let recent = recent_alerts now alerts_df
         in if length recent > 0 then
              (let tornado = tornado_alerts recent;
                   thunderstorm = thunderstorm_alerts recent;
                   other = other_severe_alerts recent;
                   moderate = moderate_alerts recent
               in (if length tornado > 0
                   then TornadoAlert # map (expander WarningSign True True) (take 3 tornado)
                   else [])
                @ (if length thunderstorm > 0
                   then ThunderstormWarning # map (expander HighVoltage True True) (take 3 thunderstorm)
                   else [])
                @ (if length other > 0
                   then OtherSevere (length other) # map (expander RotatingLight False False) (take 3 other)
                   else [])
                @ (if length moderate > 0 then [AdvisoryInfo (length moderate)] else []))
            else [])
      else [NoActiveAlerts])"

subsection \<open>Forecast filters\<close>

text \<open>
  The sidebar's three inputs: the selected city (\<^verbatim>\<open>'All'\<close> for none), the dates picked so
  far (one or two of them), and the two ends of the temperature slider.
\<close>

record filters =
  selected_city :: string
  date_range :: "int list"
  temp_range :: "int \<times> int"

definition apply_filters :: "filters \<Rightarrow> forecast_row list \<Rightarrow> forecast_row list" where
  "apply_filters inp df =
     (let filtered1 =
            (if selected_city inp \<noteq> ''All''
             then filter (\<lambda>r. city r = selected_city inp) df else df);
          filtered2 =
            (if length (date_range inp) = 2
             then filter (\<lambda>r. date_range inp ! 0 \<le> date r \<and> date r \<le> date_range inp ! 1) filtered1
             else filtered1)
      in filter (\<lambda>r. real_of_int (fst (temp_range inp)) \<le> temp_max r
                     \<and> temp_max r \<le> real_of_int (snd (temp_range inp))) filtered2)"

subsection \<open>A render pass\<close>

text \<open>
  The handler of the script's \<^verbatim>\<open>try\<close>: the error message and two hints.
\<close>

definition error_widgets :: "page_error \<Rightarrow> widget list" where
  "error_widgets e = [LoadError e, HintDatabase, HintRunPipeline]"

text \<open>
  One run of the script against the store, with both loads missing their caches (a cached
  load reads nothing). The pass is the two loads, the alert banner, the sidebar with its
  filters and the export of the filtered rows, inside the script's \<^verbatim>\<open>try\<close>. Widgets
  emitted before an exception stay on the page, and the handler adds the error below them.
  On a forecast frame with no rows the sidebar section raises before any filter is applied:
  the frame has no least date and no least temperature (\<^verbatim>\<open>int(df['temp_min'].min())\<close> is
  \<^verbatim>\<open>int(NaN)\<close>), so nothing after the banner is drawn and no export is offered. The
  sections that only draw metrics and charts from the loaded frames touch neither the store
  nor the banner and are left out.
\<close>

definition dashboard :: "'st engine \<Rightarrow> real \<Rightarrow> filters \<Rightarrow> 'st \<Rightarrow> widget list \<times> 'st" where
  "dashboard eng now inp st =
     (case load_forecast_data eng st of
        (Inl e, st1) \<Rightarrow> (error_widgets (DatabaseError e), st1)
      | (Inr df, st1) \<Rightarrow>
          (case load_alerts_data eng st1 of
             (Inl e, st2) \<Rightarrow> (error_widgets (DatabaseError e), st2)
           | (Inr alerts_df, st2) \<Rightarrow>
               (alert_banner now alerts_df
                  @ (if length df > 0
                     then [DownloadButton (apply_filters inp df)]
                     else error_widgets EmptyFrameError),
                st2)))"

subsection \<open>A sample store\<close>

text \<open>
  A concrete store and engine, to run the model on. A relation is absent, present but
  unreadable, or holds rows. Reading through a connection that is not read-only counts as
  a write to the database file.
\<close>

datatype 'r relation = Absent | Unreadable | Stored "'r list"

record sample_store =
  forecast_data :: "forecast_row relation"
  alerts_data :: "alert_row relation"
  file_writes :: nat

definition touch :: "connection \<Rightarrow> sample_store \<Rightarrow> sample_store" where
  "touch con st = (if read_only con then st else st\<lparr>file_writes := Suc (file_writes st)\<rparr>)"

definition read_relation :: "string \<Rightarrow> 'r relation \<Rightarrow> db_error + 'r list" where
  "read_relation name rel =
     (case rel of
        Absent \<Rightarrow> Inl (CatalogException name)
      | Unreadable \<Rightarrow> Inl (IOException name)
      | Stored rows \<Rightarrow> Inr rows)"

definition sample_engine :: "sample_store engine" where
  "sample_engine =
     \<lparr>select_forecast = (\<lambda>con st. (read_relation ''forecast_data'' (forecast_data st), touch con st)),
      select_alerts = (\<lambda>con st. (read_relation ''alerts_data'' (alerts_data st), touch con st))\<rparr>"

subsection \<open>Sample inputs\<close>

definition sample_result :: "(nat, unit) pipeline_result" where
  "sample_result = \<lparr>execution_time = 12, data = \<lparr>current = [(), ()], forecast = [()]\<rparr>\<rparr>"

definition succeeds_third :: "int \<Rightarrow> (nat, unit) outcome" where
  "succeeds_third k = (if k < 3 then Raises (PyException ''timeout'') else Returns (Some sample_result))"

definition flaky :: "int \<Rightarrow> (nat, unit) outcome" where
  "flaky k = (if k = 1 then Returns None else Raises (PyException ''timeout''))"


definition empty_then_ok :: "int \<Rightarrow> (nat, unit) outcome" where
  "empty_then_ok k = (if k = 1 then Returns None else Returns (Some sample_result))"

definition tornado_warning :: alert_row where
  "tornado_warning = \<lparr>event = Some ''Tornado Warning'', severity = Some ''Extreme'',
     urgency = ''Immediate'', area_desc = ''Travis County'', expires = ''18:00'',
     headline = ''Tornado Warning issued'', instruction = Some ''Take shelter now'',
     extracted_at = Some 196400\<rparr>"

definition flood_watch :: alert_row where
  "flood_watch = \<lparr>event = Some ''Flood Watch'', severity = Some ''Minor'',
     urgency = ''Future'', area_desc = ''Harris County'', expires = ''23:00'',
     headline = ''Flood Watch issued'', instruction = None,
     extracted_at = Some 192800\<rparr>"

definition tornado_watch :: alert_row where
  "tornado_watch = \<lparr>event = Some ''Tornado Watch'', severity = Some ''Severe'',
     urgency = ''Expected'', area_desc = ''Dallas County'', expires = ''06:00'',
     headline = ''Tornado Watch issued'', instruction = Some [],
     extracted_at = Some 92000\<rparr>"

definition austin :: forecast_row where
  "austin = \<lparr>city = ''Austin'', date = 19724, temp_min = 50, temp_max = 80, temp_avg = 65,
     humidity = 40, wind_speed = 8, precipitation_prob = 10, conditions = ''Clear''\<rparr>"

definition sample_filters :: filters where
  "sample_filters = \<lparr>selected_city = ''All'', date_range = [19723, 19725], temp_range = (70, 90)\<rparr>"

definition alerts_unreadable :: sample_store where
  "alerts_unreadable = \<lparr>forecast_data = Stored [austin], alerts_data = Unreadable, file_writes = 0\<rparr>"

definition forecast_unreadable :: sample_store where
  "forecast_unreadable = \<lparr>forecast_data = Unreadable, alerts_data = Stored [], file_writes = 0\<rparr>"

definition forecast_empty :: sample_store where
  "forecast_empty = \<lparr>forecast_data = Stored [], alerts_data = Absent, file_writes = 0\<rparr>"

definition alerts_absent :: sample_store where
  "alerts_absent = \<lparr>forecast_data = Stored [austin], alerts_data = Absent, file_writes = 0\<rparr>"


section \<open>The retry loop: results\<close>

lemmas effect_defs = logger_info_def logger_error_def time_sleep_def invoke_def

lemma upto_1_3: "[1..3] = [1, 2, 3]"
  by (simp add: upto.simps)

lemmas run_defs = run_pipeline_with_retry_def default_config_def upto_1_3 Let_def effect_defs
  init_state_def

text \<open>
  A run of attempts that all raise an \<^verbatim>\<open>Exception\<close> before the last attempt number: the
  loop goes on with the rest, one invocation and one sleep later for each.
\<close>

lemma retry_loop_raising_prefix:
  assumes "\<forall>a \<in> set as. a < MAX_RETRIES cfg \<and> (\<exists>e. p a = Raises (PyException e))"
  shows "\<exists>s'. retry_loop cfg p (as @ rest) s = retry_loop cfg p rest s'
           \<and> invocations s' = invocations s @ as
           \<and> slept s' = slept s @ replicate (length as) (RETRY_DELAY_MINUTES cfg * 60)"
  using assms
proof (induction as arbitrary: s)
  case Nil
  show ?case by (rule exI[of _ s]) simp
next
  case (Cons a as)
  from Cons.prems obtain e where e: "p a = Raises (PyException e)" and lt: "a < MAX_RETRIES cfg"
    by auto
  define s1 where "s1 = time_sleep (RETRY_DELAY_MINUTES cfg * 60)
     (logger_info (Retrying (RETRY_DELAY_MINUTES cfg))
       (logger_error (FailedOnAttempt a e)
         (invoke a (logger_info Rule (logger_info (Starting a (MAX_RETRIES cfg)) (logger_info Rule s))))))"
  have step: "retry_loop cfg p ((a # as) @ rest) s = retry_loop cfg p (as @ rest) s1"
    using e lt by (simp add: s1_def Let_def)
  have inv1: "invocations s1 = invocations s @ [a]"
    and sl1: "slept s1 = slept s @ [RETRY_DELAY_MINUTES cfg * 60]"
    by (simp_all add: s1_def effect_defs)
  from Cons.IH[of s1] Cons.prems obtain s' where
    "retry_loop cfg p (as @ rest) s1 = retry_loop cfg p rest s'"
    "invocations s' = invocations s1 @ as"
    "slept s' = slept s1 @ replicate (length as) (RETRY_DELAY_MINUTES cfg * 60)"
    by auto
  with step inv1 sl1 show ?case
    by (auto simp: replicate_append_same)
qed

text \<open>The same for attempts that fail in either way; only the invocations are counted.\<close>

lemma retry_loop_failing_prefix:
  assumes "\<forall>a \<in> set as. a < MAX_RETRIES cfg \<and> fails (p a)"
  shows "\<exists>s'. retry_loop cfg p (as @ rest) s = retry_loop cfg p rest s'
           \<and> invocations s' = invocations s @ as"
  using assms
proof (induction as arbitrary: s)
  case Nil
  show ?case by (rule exI[of _ s]) simp
next
  case (Cons a as)
  then have lt: "a < MAX_RETRIES cfg" and f: "fails (p a)" by auto
  from f have "\<exists>s1. retry_loop cfg p ((a # as) @ rest) s = retry_loop cfg p (as @ rest) s1
      \<and> invocations s1 = invocations s @ [a]"
    using lt
    by (auto simp: fails_def Let_def effect_defs split: outcome.splits py_exception.splits option.splits)
  then obtain s1 where s1: "retry_loop cfg p ((a # as) @ rest) s = retry_loop cfg p (as @ rest) s1"
      "invocations s1 = invocations s @ [a]" by blast
  from Cons.IH[of s1] Cons.prems obtain s' where
    "retry_loop cfg p (as @ rest) s1 = retry_loop cfg p rest s'"
    "invocations s' = invocations s1 @ as"
    by auto
  with s1 show ?case by auto
qed

text \<open>
  C1. For every \<open>N \<ge> 1\<close> and delay \<open>D\<close>: when the invocation raises an error on each of the
  attempts \<open>1 .. N - 1\<close> and returns a result on attempt \<open>N\<close>, the function returns \<open>True\<close>,
  the pipeline was invoked at exactly the attempts \<open>1 .. N\<close>, and there were exactly
  \<open>N - 1\<close> sleeps, each of \<open>D * 60\<close> seconds.
\<close>

theorem C1_succeeds_on_last_attempt:
  assumes N: "1 \<le> MAX_RETRIES cfg"
    and raising: "\<forall>k. 1 \<le> k \<and> k < MAX_RETRIES cfg \<longrightarrow> (\<exists>e. p k = Raises (PyException e))"
    and success: "p (MAX_RETRIES cfg) = Returns (Some r)"
  shows "fst (run_pipeline_with_retry cfg p) = Inr True
     \<and> invocations (snd (run_pipeline_with_retry cfg p)) = [1..MAX_RETRIES cfg]
     \<and> length (invocations (snd (run_pipeline_with_retry cfg p))) = nat (MAX_RETRIES cfg)
     \<and> slept (snd (run_pipeline_with_retry cfg p))
         = replicate (nat (MAX_RETRIES cfg - 1)) (RETRY_DELAY_MINUTES cfg * 60)"
proof -
  let ?N = "MAX_RETRIES cfg"
  have pre: "\<forall>a \<in> set [1..?N - 1]. a < ?N \<and> (\<exists>e. p a = Raises (PyException e))"
    using raising by auto
  from retry_loop_raising_prefix[OF pre, of "[?N]" init_state]
  obtain s' where s': "retry_loop cfg p ([1..?N - 1] @ [?N]) init_state = retry_loop cfg p [?N] s'"
    "invocations s' = invocations (init_state :: 'a run_state) @ [1..?N - 1]"
    "slept s' = slept (init_state :: 'a run_state)
        @ replicate (length [1..?N - 1]) (RETRY_DELAY_MINUTES cfg * 60)"
    by blast
  have run: "run_pipeline_with_retry cfg p = retry_loop cfg p [?N] s'"
    using s'(1) upto_rec2[OF N] by (simp add: run_pipeline_with_retry_def)
  have len: "length [1..?N - 1] = nat (?N - 1)" using N by simp
  show ?thesis
    using s'(2,3) success N upto_rec2[OF N] len
    by (simp add: run Let_def effect_defs init_state_def)
qed

theorem C1_witness:
  "fst (run_pipeline_with_retry default_config succeeds_third) = Inr True
   \<and> invocations (snd (run_pipeline_with_retry default_config succeeds_third)) = [1, 2, 3]
   \<and> slept (snd (run_pipeline_with_retry default_config succeeds_third)) = [300, 300]"
proof -
  have N: "1 \<le> MAX_RETRIES default_config"
    by (simp add: default_config_def)
  have raising: "\<forall>k. 1 \<le> k \<and> k < MAX_RETRIES default_config
      \<longrightarrow> (\<exists>e. succeeds_third k = Raises (PyException e))"
    by (simp add: default_config_def succeeds_third_def)
  have success: "succeeds_third (MAX_RETRIES default_config) = Returns (Some sample_result)"
    by (simp add: default_config_def succeeds_third_def)
  from C1_succeeds_on_last_attempt[OF N raising success] show ?thesis
    by (simp add: default_config_def upto_1_3 numeral_2_eq_2)
qed

text \<open>
  C2. For every \<open>N \<ge> 1\<close>: when every invocation fails, by raising an error or by returning
  no result, the function returns \<open>False\<close> and the pipeline was invoked at exactly the
  attempts \<open>1 .. N\<close>, so never an \<open>(N + 1)\<close>-th time.
\<close>

theorem C2_fails_after_max_attempts:
  assumes N: "1 \<le> MAX_RETRIES cfg"
    and failing: "\<forall>k. fails (p k)"
  shows "fst (run_pipeline_with_retry cfg p) = Inr False
     \<and> invocations (snd (run_pipeline_with_retry cfg p)) = [1..MAX_RETRIES cfg]
     \<and> length (invocations (snd (run_pipeline_with_retry cfg p))) = nat (MAX_RETRIES cfg)"
proof -
  let ?N = "MAX_RETRIES cfg"
  have pre: "\<forall>a \<in> set [1..?N - 1]. a < ?N \<and> fails (p a)"
    using failing by auto
  from retry_loop_failing_prefix[OF pre, of "[?N]" init_state]
  obtain s' where s': "retry_loop cfg p ([1..?N - 1] @ [?N]) init_state = retry_loop cfg p [?N] s'"
    "invocations s' = invocations (init_state :: 'a run_state) @ [1..?N - 1]"
    by blast
  have run: "run_pipeline_with_retry cfg p = retry_loop cfg p [?N] s'"
    using s'(1) upto_rec2[OF N] by (simp add: run_pipeline_with_retry_def)
  have "fails (p ?N)" using failing by simp
  then show ?thesis
    using s'(2) N upto_rec2[OF N]
    by (auto simp: run Let_def effect_defs init_state_def fails_def
        split: outcome.splits py_exception.splits option.splits)
qed

theorem C2_witness:
  "fst (run_pipeline_with_retry default_config flaky) = Inr False
   \<and> invocations (snd (run_pipeline_with_retry default_config flaky)) = [1, 2, 3]"
proof -
  have N: "1 \<le> MAX_RETRIES default_config"
    by (simp add: default_config_def)
  have failing: "\<forall>k. fails (flaky k)"
    by (simp add: fails_def flaky_def)
  from C2_fails_after_max_attempts[OF N failing] show ?thesis
    by (simp add: default_config_def upto_1_3)
qed





text \<open>
  C4. The claim asks that an attempt which returns no result is logged with its attempt
  number and followed by the retry delay. On the source it is not: with the first
  invocation returning nothing and the second a result, the error line carries no attempt
  number, nothing is slept, and attempt 2 starts at once.
\<close>

theorem C4_no_result_retried_without_delay:
  "run_pipeline_with_retry default_config empty_then_ok
     = (Inr True,
        \<lparr>logged =
           [(INFO, Rule), (INFO, Starting 1 3), (INFO, Rule), (ERROR, NoResult),
            (INFO, Rule), (INFO, Starting 2 3), (INFO, Rule), (INFO, Completed),
            (INFO, ExecutionTime 12), (INFO, CurrentRecords 2), (INFO, ForecastRecords 1)],
         slept = [], invocations = [1, 2]\<rparr>)"
  by (simp add: run_defs empty_then_ok_def sample_result_def)

text \<open>The sibling path: the same first attempt failing by an exception is followed by the delay.\<close>

lemma raised_attempt_is_delayed:
  "slept (snd (run_pipeline_with_retry default_config
        (\<lambda>k. if k = 1 then Raises (PyException ''timeout'') else Returns (Some sample_result))))
     = [300]"
  by (simp add: run_defs sample_result_def)

section \<open>The dashboard: results\<close>

lemmas triage_defs = recent_alerts_def tornado_alerts_def thunderstorm_alerts_def
  other_severe_alerts_def moderate_alerts_def

lemmas load_defs = load_forecast_data_def load_alerts_data_def get_database_connection_def
  sample_engine_def read_relation_def touch_def

lemma contains_facts:
  "str_contains [''Tornado''] (Some ''Tornado Warning'')"
  "str_contains [''Tornado''] (Some ''Tornado Watch'')"
  "\<not> str_contains [''Tornado''] (Some ''Flood Watch'')"
  "\<not> str_contains [''Severe Thunderstorm''] (Some ''Tornado Warning'')"
  "\<not> str_contains [''Severe Thunderstorm''] (Some ''Tornado Watch'')"
  "\<not> str_contains [''Severe Thunderstorm''] (Some ''Flood Watch'')"
  "str_contains [''Tornado'', ''Severe Thunderstorm''] (Some ''Tornado Warning'')"
  "str_contains [''Tornado'', ''Severe Thunderstorm''] (Some ''Tornado Watch'')"
  "\<not> str_contains [''Tornado'', ''Severe Thunderstorm''] (Some ''Flood Watch'')"
  by code_simp+

lemma isin_facts:
  "isin [''Moderate'', ''Minor''] (Some ''Minor'')"
  "\<not> isin [''Extreme'', ''Severe''] (Some ''Minor'')"
  "\<not> isin [''Moderate'', ''Minor''] (Some ''Extreme'')"
  "\<not> isin [''Moderate'', ''Minor''] (Some ''Severe'')"
  "isin [''Extreme'', ''Severe''] (Some ''Extreme'')"
  by (simp_all add: isin_def)

lemma filter_single:
  "distinct xs \<Longrightarrow> x \<in> set xs \<Longrightarrow> P x \<Longrightarrow> (\<forall>y \<in> set xs. y \<noteq> x \<longrightarrow> \<not> P y) \<Longrightarrow> filter P xs = [x]"
proof (induction xs)
  case Nil
  then show ?case by simp
next
  case (Cons a xs)
  show ?case
  proof (cases "a = x")
    case True
    with Cons.prems have "\<forall>y \<in> set xs. \<not> P y" by auto
    then have "filter P xs = []" by (simp add: filter_empty_conv)
    with True Cons.prems show ?thesis by simp
  next
    case False
    with Cons.prems have "\<not> P a" "x \<in> set xs" "distinct xs" "\<forall>y \<in> set xs. y \<noteq> x \<longrightarrow> \<not> P y"
      by auto
    with Cons.IH Cons.prems(3) show ?thesis by simp
  qed
qed

subsection \<open>Reading the alerts\<close>

text \<open>
  Whatever error the alerts query ends in, \<^verbatim>\<open>load_alerts_data\<close> returns the frame with no
  rows: the bare \<^verbatim>\<open>except:\<close> does not look at the error.
\<close>

lemma load_alerts_data_swallows_errors:
  "fst (select_alerts eng get_database_connection st) = Inl e
     \<Longrightarrow> fst (load_alerts_data eng st) = Inr []"
  by (cases "select_alerts eng get_database_connection st")
     (simp add: load_alerts_data_def Let_def)

text \<open>The absent relation: the empty frame and the clear-status indicator.\<close>

lemma absent_alerts_relation_is_no_alerts:
  "fst (select_alerts sample_engine get_database_connection alerts_absent)
      = Inl (CatalogException ''alerts_data'')
   \<and> fst (load_alerts_data sample_engine alerts_absent) = Inr []
   \<and> fst (dashboard sample_engine 200000 sample_filters alerts_absent)
       = [NoActiveAlerts, DownloadButton [austin]]"
  by (simp add: load_defs dashboard_def alert_banner_def alerts_absent_def
      apply_filters_def sample_filters_def austin_def)

text \<open>The sibling load: a failing read of the forecast relation is shown as an error.\<close>

lemma forecast_read_failure_is_surfaced:
  "fst (dashboard sample_engine 200000 sample_filters forecast_unreadable)
     = [LoadError (DatabaseError (IOException ''forecast_data'')), HintDatabase, HintRunPipeline]"
  by (simp add: load_defs dashboard_def error_widgets_def forecast_unreadable_def)

text \<open>A forecast frame with no rows: the banner, then the handler's error, and no export.\<close>

lemma empty_forecast_frame_ends_in_error:
  "fst (dashboard sample_engine 200000 sample_filters forecast_empty)
     = [NoActiveAlerts, LoadError EmptyFrameError, HintDatabase, HintRunPipeline]"
  by (simp add: load_defs dashboard_def alert_banner_def error_widgets_def forecast_empty_def)

text \<open>
  C5. The claim asks that a read failure of the alerts relation other than its absence is
  shown as an inline error and not treated as empty. On the source it is treated as empty:
  with the relation present and its read failing with an I/O error, \<^verbatim>\<open>load_alerts_data\<close>
  returns the frame with no rows, and the page shows the clear-status indicator and no
  error.
\<close>

theorem C5_read_failure_shown_as_all_clear:
  "fst (select_alerts sample_engine get_database_connection alerts_unreadable)
      = Inl (IOException ''alerts_data'')
   \<and> fst (load_alerts_data sample_engine alerts_unreadable) = Inr []
   \<and> fst (dashboard sample_engine 200000 sample_filters alerts_unreadable)
       = [NoActiveAlerts, DownloadButton [austin]]"
  by (simp add: load_defs dashboard_def alert_banner_def alerts_unreadable_def
      apply_filters_def sample_filters_def austin_def)

subsection \<open>Alert triage\<close>

text \<open>
  C6, as amended. Given exactly three alert rows, in any order: a "Tornado Warning"
  extracted 1 hour ago whose severity is neither Moderate nor Minor, a "Flood Watch" of
  severity Minor extracted 2 hours ago, and a "Tornado Watch" extracted 30 hours ago. The
  banner is the tornado alert with the one expander of the first row, and the advisory
  count 1.
\<close>

theorem C6_triage_three_rows:
  assumes r1: "event r1 = Some ''Tornado Warning''" "extracted_at r1 = Some (now - 1 * 3600)"
    and r1_sev: "\<not> isin [''Moderate'', ''Minor''] (severity r1)"
    and r2: "event r2 = Some ''Flood Watch''" "severity r2 = Some ''Minor''"
            "extracted_at r2 = Some (now - 2 * 3600)"
    and r3: "event r3 = Some ''Tornado Watch''" "extracted_at r3 = Some (now - 30 * 3600)"
    and rows: "set alerts_df = {r1, r2, r3}" "length alerts_df = 3"
  shows "alert_banner now alerts_df = [TornadoAlert, expander WarningSign True True r1, AdvisoryInfo 1]"
proof -
  have ne: "r1 \<noteq> r2" "r1 \<noteq> r3" "r2 \<noteq> r3"
    using r1 r2 r3 by auto
  have "card (set alerts_df) = length alerts_df"
    using rows ne by simp
  then have dist: "distinct alerts_df" by (rule card_distinct)
  have rec: "is_recent now r1" "is_recent now r2" "\<not> is_recent now r3"
    using r1 r2 r3 by (simp_all add: is_recent_def)
  have tor: "tornado_alerts (recent_alerts now alerts_df) = [r1]"
    unfolding triage_defs filter_filter using dist
    by (rule filter_single) (use rows rec r1 r2 contains_facts in auto)
  have thu: "thunderstorm_alerts (recent_alerts now alerts_df) = []"
    unfolding triage_defs filter_filter
    using rows r1 r2 r3 contains_facts by (auto simp: filter_empty_conv)
  have oth: "other_severe_alerts (recent_alerts now alerts_df) = []"
    unfolding triage_defs filter_filter
    using rows r1 r2 r3 rec contains_facts isin_facts by (auto simp: filter_empty_conv)
  have mod: "moderate_alerts (recent_alerts now alerts_df) = [r2]"
    unfolding triage_defs filter_filter using dist
    by (rule filter_single) (use rows rec r1_sev r2 isin_facts in auto)
  have "r1 \<in> set (recent_alerts now alerts_df)"
    using rows rec by (simp add: recent_alerts_def)
  then have nonempty: "length (recent_alerts now alerts_df) > 0"
    by auto
  show ?thesis
    using rows(2) nonempty by (simp add: alert_banner_def Let_def tor thu oth mod)
qed

theorem C6_witness:
  "alert_banner 200000 [tornado_warning, flood_watch, tornado_watch]
     = [TornadoAlert,
        Expander WarningSign ''Tornado Warning - Travis County'' True
          [''**Severity:** Extreme'', ''**Urgency:** Immediate'', ''**Expires:** 18:00'',
           ''**Headline:** Tornado Warning issued'', ''**What to do:** Take shelter now''],
        AdvisoryInfo 1]"
  using C6_triage_three_rows [of tornado_warning 200000 flood_watch tornado_watch
      "[tornado_warning, flood_watch, tornado_watch]"]
  by (simp add: isin_facts tornado_warning_def flood_watch_def tornado_watch_def expander_def
      alert_details_def what_to_do_def str_of_def insert_commute)

text \<open>
  C6 as stated fails: the claim leaves the severity of the "Tornado Warning" row open, and
  the advisory count takes every recent row of severity Moderate or Minor, tornado rows
  included. With that row's severity Minor the count is 2.
\<close>

theorem C6_counterexample:
  "alert_banner 200000 [tornado_warning\<lparr>severity := Some ''Minor''\<rparr>, flood_watch, tornado_watch]
     = [TornadoAlert,
        Expander WarningSign ''Tornado Warning - Travis County'' True
          [''**Severity:** Minor'', ''**Urgency:** Immediate'', ''**Expires:** 18:00'',
           ''**Headline:** Tornado Warning issued'', ''**What to do:** Take shelter now''],
        AdvisoryInfo 2]"
  by (simp add: alert_banner_def triage_defs is_recent_def contains_facts isin_facts
      tornado_warning_def flood_watch_def tornado_watch_def expander_def alert_details_def
      what_to_do_def str_of_def Let_def)

text \<open>
  C7. The claim asks for the clear-status indicator whenever no row is recent. On the
  source the indicator belongs to the \<^verbatim>\<open>else\<close> of \<^verbatim>\<open>if len(alerts_df) > 0\<close>: for the one
  row extracted 30 hours ago the banner section shows nothing at all.
\<close>

theorem C7_stale_rows_show_nothing:
  "recent_alerts 200000 [tornado_watch] = [] \<and> alert_banner 200000 [tornado_watch] = []"
  by (simp add: alert_banner_def triage_defs is_recent_def tornado_watch_def)

lemma alert_banner_all_stale:
  "alerts_df \<noteq> [] \<Longrightarrow> recent_alerts now alerts_df = [] \<Longrightarrow> alert_banner now alerts_df = []"
  by (simp add: alert_banner_def)

lemma alert_banner_no_rows: "alert_banner now [] = [NoActiveAlerts]"
  by (simp add: alert_banner_def)

subsection \<open>The store is only read\<close>

lemma sample_engine_honours_read_only: "honours_read_only sample_engine"
  by (simp add: honours_read_only_def sample_engine_def touch_def)

lemma sample_engine_writes_when_writable:
  "snd (select_alerts sample_engine (get_database_connection\<lparr>read_only := False\<rparr>) alerts_absent)
     \<noteq> alerts_absent"
  by (simp add: sample_engine_def touch_def alerts_absent_def)

text \<open>
  C9. The connection every load uses is opened read-only, so with an engine that leaves
  the store as it is through a read-only connection, each load and the whole render pass
  end in the store they started from.
\<close>

theorem C9_render_pass_keeps_store:
  assumes "honours_read_only eng"
  shows "read_only get_database_connection
       \<and> snd (load_forecast_data eng st) = st
       \<and> snd (load_alerts_data eng st) = st
       \<and> snd (dashboard eng now inp st) = st"
proof -
  have ro: "read_only get_database_connection"
    by (simp add: get_database_connection_def)
  with assms have sel: "\<And>s. snd (select_forecast eng get_database_connection s) = s"
    "\<And>s. snd (select_alerts eng get_database_connection s) = s"
    by (simp_all add: honours_read_only_def)
  have f: "snd (load_forecast_data eng s) = s" for s
    using sel(1)[of s]
    by (cases "select_forecast eng get_database_connection s")
       (auto simp: load_forecast_data_def Let_def split: sum.splits)
  have a: "snd (load_alerts_data eng s) = s" for s
    using sel(2)[of s]
    by (cases "select_alerts eng get_database_connection s")
       (auto simp: load_alerts_data_def Let_def split: sum.splits)
  have d: "snd (dashboard eng now inp st) = st"
  proof (cases "load_forecast_data eng st")
    case (Pair r1 st1)
    with f[of st] have st1: "st1 = st" by simp
    show ?thesis
    proof (cases "load_alerts_data eng st")
      case (Pair r2 st2)
      with a[of st] have "st2 = st" by simp
      with Pair \<open>load_forecast_data eng st = (r1, st1)\<close> st1 show ?thesis
        by (auto simp: dashboard_def split: sum.splits)
    qed
  qed
  from ro f a d show ?thesis by simp
qed

theorem C9_witness:
  "honours_read_only sample_engine
   \<and> snd (dashboard sample_engine 200000 sample_filters alerts_absent) = alerts_absent"
  using C9_render_pass_keeps_store[OF sample_engine_honours_read_only,
      of alerts_absent 200000 sample_filters]
    sample_engine_honours_read_only
  by simp

subsection \<open>The temperature band\<close>

text \<open>
  C10. A row is in the filtered frame exactly when it is in the loaded frame, passes the
  city and date filters, and has \<open>lo \<le> temp_max \<le> hi\<close>. Changing \<open>temp_min\<close> and
  \<open>temp_avg\<close> of the rows in any way changes the filtered rows in that way and no other:
  the two columns play no part in the selection.
\<close>

theorem C10_band_filter_reads_temp_max:
  "(r \<in> set (apply_filters inp df) \<longleftrightarrow>
      r \<in> set df
    \<and> (selected_city inp = ''All'' \<or> city r = selected_city inp)
    \<and> (length (date_range inp) = 2 \<longrightarrow>
         date_range inp ! 0 \<le> date r \<and> date r \<le> date_range inp ! 1)
    \<and> real_of_int (fst (temp_range inp)) \<le> temp_max r
    \<and> temp_max r \<le> real_of_int (snd (temp_range inp)))
   \<and> apply_filters inp (map (\<lambda>x. x\<lparr>temp_min := tmin x, temp_avg := tavg x\<rparr>) df)
       = map (\<lambda>x. x\<lparr>temp_min := tmin x, temp_avg := tavg x\<rparr>) (apply_filters inp df)"
  by (auto simp: apply_filters_def Let_def filter_map comp_def)

theorem C10_witness:
  "austin \<in> set (apply_filters sample_filters [austin])
   \<and> temp_min austin < real_of_int (fst (temp_range sample_filters))
   \<and> apply_filters sample_filters [austin\<lparr>temp_min := 0, temp_avg := 200\<rparr>]
       = [austin\<lparr>temp_min := 0, temp_avg := 200\<rparr>]"
  using C10_band_filter_reads_temp_max[where r = austin and inp = sample_filters
      and df = "[austin]" and tmin = "\<lambda>_. 0" and tavg = "\<lambda>_. 200"]
  by (simp add: apply_filters_def sample_filters_def austin_def)

end
